theory Spec2Isabelle
  imports Main "HOL-Library.AList" "HOL-Library.Sublist"
begin

section \<open>The filesystem as \<^verbatim>\<open>pathlib\<close> observes it\<close>

text \<open>
  \<^verbatim>\<open>analyze_role_structure\<close> reads the filesystem only through \<^verbatim>\<open>Path.exists\<close>,
  \<^verbatim>\<open>Path.is_dir\<close>, \<^verbatim>\<open>Path.is_file\<close>, \<^verbatim>\<open>Path.glob\<close> and the \<^verbatim>\<open>/\<close> operator. A directory
  entry is a regular file, a directory with its listing (in the order \<^verbatim>\<open>scandir\<close>
  enumerates it), a symbolic link together with the entry it points at (\<open>None\<close> for a
  dangling or looping link), or a special file (socket, FIFO, device). File contents are
  never read, so a regular file carries none. Every entry is taken to be accessible.
\<close>

datatype fsnode =
    File
  | Dir "(string \<times> fsnode) list"
  | Symlink "fsnode option"
  | Special

text \<open>
  A \<^verbatim>\<open>Path\<close> object is modelled by the directory entry it names, \<open>None\<close> when there is
  no such entry.
\<close>

type_synonym path = "fsnode option"

text \<open>\<^verbatim>\<open>os.stat\<close> follows symbolic links to the entry they finally name.\<close>

fun resolve :: "fsnode \<Rightarrow> fsnode option" where
  "resolve File = Some File"
| "resolve (Dir es) = Some (Dir es)"
| "resolve Special = Some Special"
| "resolve (Symlink None) = None"
| "resolve (Symlink (Some t)) = resolve t"

definition stat :: "path \<Rightarrow> fsnode option" where
  "stat p = (case p of None \<Rightarrow> None | Some n \<Rightarrow> resolve n)"

text \<open>
  \<^verbatim>\<open>Path.exists\<close>, \<^verbatim>\<open>Path.is_dir\<close> and \<^verbatim>\<open>Path.is_file\<close> call \<^verbatim>\<open>stat\<close> and answer
  \<^verbatim>\<open>False\<close> when it fails with \<^verbatim>\<open>ENOENT\<close>, \<^verbatim>\<open>ENOTDIR\<close> or \<^verbatim>\<open>ELOOP\<close>.
\<close>

definition path_exists :: "path \<Rightarrow> bool" where
  "path_exists p = (case stat p of None \<Rightarrow> False | Some _ \<Rightarrow> True)"

definition is_dir :: "path \<Rightarrow> bool" where
  "is_dir p = (case stat p of Some (Dir _) \<Rightarrow> True | _ \<Rightarrow> False)"

definition is_file :: "path \<Rightarrow> bool" where
  "is_file p = (case stat p of Some File \<Rightarrow> True | _ \<Rightarrow> False)"

text \<open>\<^verbatim>\<open>os.scandir\<close>: the listing of a directory, reached through links if need be.\<close>

definition scandir :: "path \<Rightarrow> (string \<times> fsnode) list" where
  "scandir p = (case stat p of Some (Dir es) \<Rightarrow> es | _ \<Rightarrow> [])"

text \<open>
  \<^verbatim>\<open>parent / name\<close>: the entry called \<open>name\<close> in the directory \<open>parent\<close> names; nothing
  when \<open>parent\<close> is missing or is not a directory.
\<close>

definition truediv :: "path \<Rightarrow> string \<Rightarrow> path" where
  "truediv p name = map_of (scandir p) name"

text \<open>
  \<^verbatim>\<open>Path.glob("**/*")\<close>. The \<^verbatim>\<open>**\<close> selector yields the starting directory and, in
  pre-order, every directory below it that is not a symbolic link
  (\<^verbatim>\<open>entry.is_dir() and not entry.is_symlink()\<close>); the \<^verbatim>\<open>*\<close> selector then yields every
  entry of each of these directories, hidden ones included.
\<close>

fun iterate_directories :: "fsnode \<Rightarrow> fsnode list" where
  "iterate_directories (Dir es) =
     Dir es # concat (map (\<lambda>e. iterate_directories (snd e)) es)"
| "iterate_directories File = []"
| "iterate_directories (Symlink t) = []"
| "iterate_directories Special = []"

definition select_all :: "fsnode \<Rightarrow> path list" where
  "select_all d = (case d of Dir es \<Rightarrow> map (\<lambda>e. Some (snd e)) es | _ \<Rightarrow> [])"

definition glob_rec_all :: "path \<Rightarrow> path list" where
  "glob_rec_all p =
     (case stat p of
        None \<Rightarrow> []
      | Some d \<Rightarrow> concat (map select_all (iterate_directories d)))"

text \<open>
  \<^verbatim>\<open>Path.glob("README*")\<close>: the entries of the directory whose name matches the
  pattern, that is, starts with \<^verbatim>\<open>README\<close>. The kind of the entry is not looked at.
\<close>

definition fnmatch_readme :: "string \<Rightarrow> bool" where
  "fnmatch_readme name = prefix ''README'' name"

definition glob_readme :: "path \<Rightarrow> path list" where
  "glob_readme p = map (\<lambda>e. Some (snd e)) (filter (\<lambda>e. fnmatch_readme (fst e)) (scandir p))"

text \<open>
  \<^verbatim>\<open>PurePosixPath(s).name\<close>: the last component of the path, empty components and
  \<^verbatim>\<open>.\<close> dropped; the empty string when no component is left (\<^verbatim>\<open>"."\<close>, \<^verbatim>\<open>"/"\<close>).
\<close>

fun split_sep :: "string \<Rightarrow> string list" where
  "split_sep [] = [[]]"
| "split_sep (c # cs) =
     (if c = CHR ''/'' then [] # split_sep cs
      else (case split_sep cs of [] \<Rightarrow> [[c]] | w # ws \<Rightarrow> (c # w) # ws))"

definition path_parts :: "string \<Rightarrow> string list" where
  "path_parts s = filter (\<lambda>w. w \<noteq> [] \<and> w \<noteq> ''.'') (split_sep s)"

definition path_name :: "string \<Rightarrow> string" where
  "path_name s = (if path_parts s = [] then [] else last (path_parts s))"

section \<open>The structure report\<close>

text \<open>
  The dictionaries \<^verbatim>\<open>analyze_role_structure\<close> builds. A key that a dictionary may lack
  (\<^verbatim>\<open>file_count\<close>) is an optional field. \<^verbatim>\<open>analysis["structure"]\<close> keeps its insertion
  order, so it is an association list.
\<close>

record directory_status =
  exists :: bool
  file_count :: "nat option"
  description :: string

record issue =
  severity :: string
  message :: string

record recommendation =
  type :: string
  message :: string

record summary =
  directories_present :: nat
  total_expected :: nat
  issue_count :: nat
  recommendation_count :: nat

record analysis =
  role_name :: string
  "structure" :: "(string \<times> directory_status) list"
  issues :: "issue list"
  recommendations :: "recommendation list"
  summary :: summary

definition expected_dirs :: "(string \<times> string) list" where
  "expected_dirs =
     [(''tasks'', ''Task files (main.yml required)''),
      (''handlers'', ''Handler files''),
      (''templates'', ''Jinja2 templates''),
      (''files'', ''Static files''),
      (''vars'', ''Variable files''),
      (''defaults'', ''Default variables (main.yml recommended)''),
      (''meta'', ''Role metadata (main.yml for Galaxy)''),
      (''library'', ''Custom modules''),
      (''module_utils'', ''Module utilities''),
      (''lookup_plugins'', ''Custom lookup plugins'')]"

text \<open>The body of the loop over \<^verbatim>\<open>expected_dirs.items()\<close>, for one entry.\<close>

definition check_dir :: "path \<Rightarrow> string \<Rightarrow> string \<Rightarrow> directory_status" where
  "check_dir role_path dir_name descr =
     (let dir_path = truediv role_path dir_name in
      if path_exists dir_path \<and> is_dir dir_path then
        (let files = glob_rec_all dir_path;
             count = length (filter is_file files)
         in \<lparr>exists = True, file_count = Some count, description = descr\<rparr>)
      else \<lparr>exists = False, file_count = None, description = descr\<rparr>)"

definition check_dirs :: "path \<Rightarrow> (string \<times> directory_status) list" where
  "check_dirs role_path =
     fold (\<lambda>(dir_name, descr) st. AList.update dir_name (check_dir role_path dir_name descr) st)
       expected_dirs []"

definition missing_tasks_main :: issue where
  "missing_tasks_main =
     \<lparr>severity = ''error'',
      issue.message = ''Missing tasks/main.yml - required entry point for role''\<rparr>"

definition rec_documentation :: recommendation where
  "rec_documentation =
     \<lparr>type = ''documentation'',
      message = ''Consider adding README.md to document the role''\<rparr>"

definition rec_metadata :: recommendation where
  "rec_metadata =
     \<lparr>type = ''metadata'',
      message = ''Consider adding meta/main.yml for Ansible Galaxy compatibility''\<rparr>"

definition rec_variables :: recommendation where
  "rec_variables =
     \<lparr>type = ''variables'',
      message = ''Consider adding defaults/main.yml to define role defaults''\<rparr>"

definition rec_testing :: recommendation where
  "rec_testing =
     \<lparr>type = ''testing'',
      message = ''Consider adding tests/ or molecule/ directory for role testing''\<rparr>"

text \<open>
  \<^verbatim>\<open>analyze_role_structure(role_path)\<close>. The first argument is the string passed in; the
  second is the entry that string names in the filesystem the call runs against.
\<close>

definition analyze_role_structure :: "string \<Rightarrow> path \<Rightarrow> analysis" where
  "analyze_role_structure role_path_str role_path =
     (let structure0 = check_dirs role_path;
          tasks_main = truediv (truediv role_path ''tasks'') ''main.yml'';
          issues0 = (if \<not> path_exists tasks_main then [missing_tasks_main] else []);
          readme_files = glob_readme role_path;
          recs1 = (if readme_files = [] then [rec_documentation] else []);
          meta_main = truediv (truediv role_path ''meta'') ''main.yml'';
          recs2 = (if \<not> path_exists meta_main then recs1 @ [rec_metadata] else recs1);
          defaults_main = truediv (truediv role_path ''defaults'') ''main.yml'';
          recs3 = (if \<not> path_exists defaults_main then recs2 @ [rec_variables] else recs2);
          tests_dir = truediv role_path ''tests'';
          molecule_dir = truediv role_path ''molecule'';
          recs4 = (if \<not> path_exists tests_dir \<and> \<not> path_exists molecule_dir
                   then recs3 @ [rec_testing] else recs3)
      in \<lparr>role_name = path_name role_path_str,
          structure = structure0,
          issues = issues0,
          recommendations = recs4,
          summary =
            \<lparr>directories_present = length (filter (\<lambda>d. exists d) (map snd structure0)),
             total_expected = length expected_dirs,
             issue_count = length issues0,
             recommendation_count = length recs4\<rparr>\<rparr>)"

section \<open>The lint report\<close>

text \<open>
  The values a report can hold: what \<^verbatim>\<open>json.loads\<close> returns (\<^verbatim>\<open>None\<close>, booleans, numbers,
  strings, lists, dictionaries with string keys) and the captured text itself, which is a
  Python string like any other. A float is kept as the text of its literal.
\<close>

datatype py_value =
    PyNone
  | PyBool bool
  | PyInt int
  | PyFloat string
  | PyStr string
  | PyList "py_value list"
  | PyDict "(string \<times> py_value) list"

text \<open>
  \<^verbatim>\<open>subprocess.run\<close> either returns a \<^verbatim>\<open>CompletedProcess\<close> or raises. The exceptions are
  split the way the handlers of \<^verbatim>\<open>run_ansible_lint\<close> split them; each carries \<^verbatim>\<open>str(e)\<close>.
\<close>

record completed_process =
  returncode :: int
  stdout :: string
  stderr :: string

datatype exn =
    FileNotFoundError string
  | TimeoutExpired string
  | OtherException string

text \<open>
  \<^verbatim>\<open>json.loads\<close> returns the decoded document, raises \<^verbatim>\<open>JSONDecodeError\<close>, or raises
  something else: a \<^verbatim>\<open>ValueError\<close> for an integer literal longer than the interpreter's
  digit limit, a \<^verbatim>\<open>RecursionError\<close> for brackets nested too deep. Only the second is
  caught next to the call; the third leaves the \<^verbatim>\<open>try\<close> block like any other exception.
\<close>

datatype json_outcome =
    Decoded py_value
  | JSONDecodeError
  | Raised exn

record lint_report =
  success :: bool
  findings :: "py_value option"
  summary :: "string option"
  stderr :: "string option"
  error :: "string option"

text \<open>\<^verbatim>\<open>str(n)\<close> for the length of a list, as the f-string formats it.\<close>

definition digit_char :: "nat \<Rightarrow> char" where
  "digit_char n = ''0123456789'' ! n"

fun str_nat :: "nat \<Rightarrow> string" where
  "str_nat n = (if n < 10 then [digit_char n] else str_nat (n div 10) @ [digit_char (n mod 10)])"

text \<open>
  The three \<^verbatim>\<open>except\<close> clauses that close the \<^verbatim>\<open>try\<close> block, in their order. They
  receive every exception raised inside the block, by \<^verbatim>\<open>subprocess.run\<close> or later. The
  dictionary returned is a record whose optional fields are the keys it may lack.
\<close>

definition handle_exception :: "exn \<Rightarrow> lint_report" where
  "handle_exception e =
     (case e of
        FileNotFoundError _ \<Rightarrow>
          \<lparr>success = False, findings = None, summary = None, stderr = None,
           error = Some ''ansible-lint not found. Install with: pip install ansible-lint''\<rparr>
      | TimeoutExpired _ \<Rightarrow>
          \<lparr>success = False, findings = None, summary = None, stderr = None,
           error = Some ''ansible-lint timed out after 60 seconds''\<rparr>
      | OtherException msg \<Rightarrow>
          \<lparr>success = False, findings = None, summary = None, stderr = None,
           error = Some msg\<rparr>)"

text \<open>
  The rest of the \<^verbatim>\<open>try\<close> block once \<^verbatim>\<open>output["findings"]\<close> is settled: attach
  \<^verbatim>\<open>stderr\<close> when it is not empty, derive the summary, return \<^verbatim>\<open>output\<close>.
\<close>

definition completed_output :: "completed_process \<Rightarrow> py_value \<Rightarrow> lint_report" where
  "completed_output result findings1 =
     (let stderr1 =
            (if completed_process.stderr result \<noteq> []
             then Some (completed_process.stderr result) else None);
          summary1 =
            (case findings1 of
               PyList xs \<Rightarrow> ''Found '' @ str_nat (length xs) @ '' ansible-lint findings''
             | _ \<Rightarrow> ''ansible-lint completed'')
      in \<lparr>success = True, findings = Some findings1, summary = Some summary1,
          stderr = stderr1, error = None\<rparr>)"

text \<open>
  \<^verbatim>\<open>run_ansible_lint(path)\<close>. The two library calls it makes are parameters:
  \<open>subprocess_run argv timeout\<close> is the outcome of running the command, and
  \<open>json_loads s\<close> is the outcome of decoding \<open>s\<close>.
\<close>

definition run_ansible_lint ::
  "(string list \<Rightarrow> nat \<Rightarrow> exn + completed_process) \<Rightarrow> (string \<Rightarrow> json_outcome) \<Rightarrow>
   string \<Rightarrow> lint_report" where
  "run_ansible_lint subprocess_run json_loads path =
     (case subprocess_run [''ansible-lint'', ''--format'', ''json'', path] 60 of
        Inl e \<Rightarrow> handle_exception e
      | Inr result \<Rightarrow>
          (if stdout result \<noteq> [] then
             (case json_loads (stdout result) of
                Decoded lint_output \<Rightarrow> completed_output result lint_output
              | JSONDecodeError \<Rightarrow> completed_output result (PyStr (stdout result))
              | Raised e \<Rightarrow> handle_exception e)
           else completed_output result (PyList [])))"

section \<open>Notions the properties are stated with\<close>

text \<open>
  The number of regular files below a directory, as the specification words it: every
  entry below the directory is enumerated, directories that are symbolic links are not
  entered, and only the entries that are themselves regular files are counted.
\<close>

fun regular_files_under :: "fsnode \<Rightarrow> nat" where
  "regular_files_under (Dir es) =
     sum_list (map (\<lambda>e. (if snd e = File then 1 else 0) + regular_files_under (snd e)) es)"
| "regular_files_under File = 0"
| "regular_files_under (Symlink t) = 0"
| "regular_files_under Special = 0"

text \<open>A symbolic link that leads to a regular file, and the number of them below a directory.\<close>

fun is_file_link :: "fsnode \<Rightarrow> bool" where
  "is_file_link (Symlink t) = (resolve (Symlink t) = Some File)"
| "is_file_link File = False"
| "is_file_link (Dir es) = False"
| "is_file_link Special = False"

fun file_links_under :: "fsnode \<Rightarrow> nat" where
  "file_links_under (Dir es) =
     sum_list (map (\<lambda>e. (if is_file_link (snd e) then 1 else 0) + file_links_under (snd e)) es)"
| "file_links_under File = 0"
| "file_links_under (Symlink t) = 0"
| "file_links_under Special = 0"

text \<open>What the loop body counts for a directory \<open>d\<close>: \<^verbatim>\<open>len([f for f in files if f.is_file()])\<close>.\<close>

definition count_files :: "fsnode \<Rightarrow> nat" where
  "count_files d = length (filter is_file (concat (map select_all (iterate_directories d))))"

text \<open>
  Two directory trees that differ at most in the order in which their directories list
  their entries: the same names at every level, distinct within one directory, and
  entries of the same kind under each name. A second run over an unchanged tree sees
  such a tree, whatever order \<^verbatim>\<open>scandir\<close> happens to enumerate it in.
\<close>

fun same_tree :: "fsnode \<Rightarrow> fsnode \<Rightarrow> bool" where
  "same_tree File t' = (t' = File)"
| "same_tree Special t' = (t' = Special)"
| "same_tree (Symlink None) t' = (t' = Symlink None)"
| "same_tree (Symlink (Some t)) t' =
     (case t' of Symlink (Some u) \<Rightarrow> same_tree t u | _ \<Rightarrow> False)"
| "same_tree (Dir es) t' =
     (case t' of
        Dir es' \<Rightarrow>
          distinct (map fst es) \<and> distinct (map fst es') \<and> length es = length es' \<and>
          list_all (\<lambda>e. case map_of es' (fst e) of
                            None \<Rightarrow> False
                          | Some x' \<Rightarrow> same_tree (snd e) x') es
      | _ \<Rightarrow> False)"

definition same_path :: "path \<Rightarrow> path \<Rightarrow> bool" where
  "same_path p p' =
     (case p of
        None \<Rightarrow> p' = None
      | Some t \<Rightarrow> (case p' of None \<Rightarrow> False | Some t' \<Rightarrow> same_tree t t'))"

text \<open>A tree in which no directory lists a name twice, as on every real filesystem.\<close>

fun distinct_names :: "fsnode \<Rightarrow> bool" where
  "distinct_names (Dir es) =
     (distinct (map fst es) \<and> list_all (\<lambda>e. distinct_names (snd e)) es)"
| "distinct_names (Symlink None) = True"
| "distinct_names (Symlink (Some t)) = distinct_names t"
| "distinct_names File = True"
| "distinct_names Special = True"

text \<open>
  Two texts on which \<^verbatim>\<open>json.loads\<close> (Python 3.11 and later) raises \<^verbatim>\<open>ValueError\<close>: an
  integer literal of 4301 digits, which is a JSON document, and an opening bracket
  followed by 5000 digits, which is not.
\<close>

definition long_integer_text :: string where
  "long_integer_text = replicate 4301 CHR ''1''"

definition open_array_text :: string where
  "open_array_text = CHR ''['' # replicate 5000 CHR ''1''"

text \<open>
  \<^verbatim>\<open>json.loads\<close> on the handful of texts the examples below feed it: one array, one
  object, the two texts above, and texts that are no JSON document (the empty text
  among them).
\<close>

definition json_loads_fragment :: "string \<Rightarrow> json_outcome" where
  "json_loads_fragment s =
     (if s = ''[1, 2]'' then Decoded (PyList [PyInt 1, PyInt 2])
      else if s = ''{}'' then Decoded (PyDict [])
      else if s = long_integer_text then
        Raised (OtherException
          (''Exceeds the limit (4300 digits) for integer string conversion: '' @
           ''value has 4301 digits; use sys.set_int_max_str_digits() to increase the limit''))
      else if s = open_array_text then
        Raised (OtherException
          (''Exceeds the limit (4300 digits) for integer string conversion: '' @
           ''value has 5000 digits; use sys.set_int_max_str_digits() to increase the limit''))
      else JSONDecodeError)"

section \<open>Auxiliary facts\<close>

lemma check_dirs_eq:
  "check_dirs rp = map (\<lambda>(n, d). (n, check_dir rp n d)) expected_dirs"
  by (simp add: check_dirs_def expected_dirs_def)

lemma length_expected_dirs: "length expected_dirs = 10"
  by (simp add: expected_dirs_def)

lemma distinct_expected_dirs: "distinct (map fst expected_dirs)"
  by (simp add: expected_dirs_def)

lemma map_of_catalog:
  "distinct (map fst xs) \<Longrightarrow> (k, v) \<in> set xs \<Longrightarrow>
   map_of (map (\<lambda>(n, d). (n, f n d)) xs) k = Some (f k v)"
  by (induction xs) (auto simp: rev_image_eqI)

lemma length_filter_concat:
  "length (filter P (concat (map f (concat (map g es))))) =
   sum_list (map (\<lambda>e. length (filter P (concat (map f (g e))))) es)"
  by (induction es) simp_all

lemma length_filter_comp:
  "length (filter (P \<circ> f) es) = sum_list (map (\<lambda>e. if P (f e) then 1 else 0) es)"
  by (induction es) simp_all

lemma count_files_Dir:
  "count_files (Dir es) =
   sum_list (map (\<lambda>e. (if is_file (Some (snd e)) then 1 else 0) + count_files (snd e)) es)"
  by (simp add: count_files_def select_all_def length_filter_concat length_filter_comp
      sum_list_addf)

lemma count_files_leaf [simp]:
  "count_files File = 0" "count_files (Symlink t) = 0" "count_files Special = 0"
  by (simp_all add: count_files_def)

lemma is_file_Some: "is_file (Some x) \<longleftrightarrow> x = File \<or> is_file_link x"
  by (cases x) (auto simp: is_file_def stat_def split: option.splits fsnode.splits)

lemma count_files_split: "count_files d = regular_files_under d + file_links_under d"
proof (induction d rule: iterate_directories.induct)
  case (1 es)
  have "count_files (Dir es) =
     sum_list (map (\<lambda>e. (if is_file (Some (snd e)) then 1 else 0) + count_files (snd e)) es)"
    by (rule count_files_Dir)
  also have "\<dots> =
     sum_list (map (\<lambda>e. ((if snd e = File then 1 else 0) + regular_files_under (snd e)) +
        ((if is_file_link (snd e) then 1 else 0) + file_links_under (snd e))) es)"
    by (intro arg_cong [where f = sum_list] map_cong refl) (use 1 in \<open>auto simp: is_file_Some\<close>)
  also have "\<dots> = regular_files_under (Dir es) + file_links_under (Dir es)"
    by (simp add: sum_list_addf)
  finally show ?case .
qed simp_all

lemma glob_count:
  "length (filter is_file (glob_rec_all q)) =
   (case stat q of None \<Rightarrow> 0 | Some d \<Rightarrow> count_files d)"
  by (simp add: glob_rec_all_def count_files_def split: option.splits)

lemmas fs_eval =
  truediv_def scandir_def stat_def path_exists_def is_dir_def is_file_def
  glob_rec_all_def select_all_def glob_readme_def fnmatch_readme_def

lemmas report_eval =
  analyze_role_structure_def Let_def check_dirs_eq expected_dirs_def check_dir_def
  missing_tasks_main_def rec_documentation_def rec_metadata_def rec_variables_def
  rec_testing_def

lemma same_tree_Dir_is_Dir: "same_tree (Dir es) t' \<Longrightarrow> \<exists>es'. t' = Dir es'"
  by (cases t') simp_all

lemma same_tree_Symlink_is_Symlink:
  "same_tree (Symlink (Some t)) t' \<Longrightarrow> \<exists>u. t' = Symlink (Some u) \<and> same_tree t u"
  by (cases t') (auto split: option.splits)

lemma same_tree_DirD:
  assumes "same_tree (Dir es) (Dir es')"
  shows "distinct (map fst es)" and "distinct (map fst es')" and "length es = length es'"
    and "\<And>e. e \<in> set es \<Longrightarrow> \<exists>x'. map_of es' (fst e) = Some x' \<and> same_tree (snd e) x'"
  using assms by (auto simp: list_all_iff split: option.splits)

lemma same_tree_names:
  assumes "same_tree (Dir es) (Dir es')"
  shows "fst ` set es = fst ` set es'"
proof (rule card_subset_eq)
  show "finite (fst ` set es')"
    by simp
  show "fst ` set es \<subseteq> fst ` set es'"
  proof
    fix n
    assume "n \<in> fst ` set es"
    then obtain e where "e \<in> set es" "n = fst e"
      by blast
    with same_tree_DirD(4) [OF assms] obtain x' where "map_of es' n = Some x'"
      by blast
    then have "(n, x') \<in> set es'"
      by (rule map_of_SomeD)
    then show "n \<in> fst ` set es'"
      by (rule rev_image_eqI) simp
  qed
  show "card (fst ` set es) = card (fst ` set es')"
    using same_tree_DirD(1-3) [OF assms]
      distinct_card [of "map fst es"] distinct_card [of "map fst es'"] by simp
qed

lemma same_tree_lookup:
  assumes "same_tree (Dir es) (Dir es')"
  shows "same_path (map_of es n) (map_of es' n)"
proof (cases "map_of es n")
  case None
  then have "n \<notin> fst ` set es"
    by (simp add: map_of_eq_None_iff)
  then have "n \<notin> fst ` set es'"
    using same_tree_names [OF assms] by simp
  then have "map_of es' n = None"
    by (simp add: map_of_eq_None_iff)
  with None show ?thesis
    by (simp add: same_path_def)
next
  case (Some x)
  then have "(n, x) \<in> set es"
    by (rule map_of_SomeD)
  from same_tree_DirD(4) [OF assms this]
  obtain x' where "map_of es' n = Some x'" "same_tree x x'"
    by auto
  with Some show ?thesis
    by (simp add: same_path_def)
qed

lemma same_tree_resolve: "same_tree t t' \<Longrightarrow> same_path (resolve t) (resolve t')"
proof (induction t t' rule: same_tree.induct)
  case (4 t t')
  from same_tree_Symlink_is_Symlink [OF 4(2)]
  obtain u where u: "t' = Symlink (Some u)" "same_tree t u"
    by blast
  from 4(1) [OF u(1) refl u(2)] u(1) show ?case
    by simp
next
  case (5 es t')
  from same_tree_Dir_is_Dir [OF 5(2)] obtain es' where "t' = Dir es'"
    by blast
  with 5(2) show ?case
    by (simp add: same_path_def del: same_tree.simps)
qed (simp_all add: same_path_def)

lemma same_stat:
  assumes "same_path p p'"
  shows "same_path (stat p) (stat p')"
proof (cases p)
  case None
  with assms have "p' = None"
    by (simp add: same_path_def)
  with None show ?thesis
    by (simp add: stat_def same_path_def)
next
  case (Some t)
  with assms obtain t' where "p' = Some t'" "same_tree t t'"
    by (auto simp: same_path_def split: option.splits)
  with Some show ?thesis
    by (simp add: stat_def same_tree_resolve)
qed

lemma same_tree_kind:
  assumes "same_tree t t'"
  shows "(t = File \<longleftrightarrow> t' = File) \<and> ((\<exists>es. t = Dir es) \<longleftrightarrow> (\<exists>es'. t' = Dir es'))"
proof (cases t rule: resolve.cases)
  case (2 es)
  with assms same_tree_Dir_is_Dir show ?thesis
    by blast
next
  case (5 u)
  with assms same_tree_Symlink_is_Symlink [of u t'] show ?thesis
    by auto
qed (use assms in simp_all)

lemma same_path_kind:
  assumes "same_path q q'"
  shows "(q = None \<longleftrightarrow> q' = None) \<and> (q = Some File \<longleftrightarrow> q' = Some File) \<and>
    ((\<exists>es. q = Some (Dir es)) \<longleftrightarrow> (\<exists>es'. q' = Some (Dir es')))"
proof (cases q)
  case None
  with assms show ?thesis
    by (simp add: same_path_def)
next
  case (Some t)
  with assms obtain t' where "q' = Some t'" "same_tree t t'"
    by (auto simp: same_path_def split: option.splits)
  with Some same_tree_kind [of t t'] show ?thesis
    by simp
qed

lemma same_path_exists: "same_path p p' \<Longrightarrow> path_exists p = path_exists p'"
  using same_path_kind [OF same_stat, of p p']
  by (auto simp: path_exists_def split: option.splits)

lemma same_path_is_dir: "same_path p p' \<Longrightarrow> is_dir p = is_dir p'"
  using same_path_kind [OF same_stat, of p p']
  by (auto simp: is_dir_def split: option.splits fsnode.splits)

lemma same_path_is_file: "same_path p p' \<Longrightarrow> is_file p = is_file p'"
  using same_path_kind [OF same_stat, of p p']
  by (auto simp: is_file_def split: option.splits fsnode.splits)

lemma same_path_scandir:
  assumes "same_path p p'"
  shows "same_path (map_of (scandir p) n) (map_of (scandir p') n) \<and>
    fst ` set (scandir p) = fst ` set (scandir p')"
proof (cases "\<exists>es. stat p = Some (Dir es)")
  case True
  then obtain es where es: "stat p = Some (Dir es)"
    by blast
  with same_path_kind [OF same_stat [OF assms]] obtain es' where es': "stat p' = Some (Dir es')"
    by auto
  from same_stat [OF assms] es es' have "same_tree (Dir es) (Dir es')"
    by (simp add: same_path_def del: same_tree.simps)
  with es es' show ?thesis
    by (simp add: scandir_def same_tree_lookup same_tree_names del: same_tree.simps)
next
  case False
  with same_path_kind [OF same_stat [OF assms]] have "\<not> (\<exists>es'. stat p' = Some (Dir es'))"
    by simp
  with False have "scandir p = []" "scandir p' = []"
    by (auto simp: scandir_def split: option.splits fsnode.splits)
  then show ?thesis
    by (simp add: same_path_def)
qed

lemma same_path_truediv: "same_path p p' \<Longrightarrow> same_path (truediv p n) (truediv p' n)"
  by (simp add: truediv_def same_path_scandir)

lemma same_path_glob_readme:
  assumes "same_path p p'"
  shows "glob_readme p = [] \<longleftrightarrow> glob_readme p' = []"
proof -
  have *: "glob_readme q = [] \<longleftrightarrow> (\<forall>n \<in> fst ` set (scandir q). \<not> fnmatch_readme n)" for q
    by (auto simp: glob_readme_def filter_empty_conv)
  from same_path_scandir [OF assms] have eq: "fst ` set (scandir p) = fst ` set (scandir p')"
    by simp
  show ?thesis
    by (simp only: * eq)
qed

lemma sum_list_by_name:
  "distinct (map fst es) \<Longrightarrow>
   sum_list (map (\<lambda>e. h (snd e)) es) = (\<Sum>n \<in> fst ` set es. (h (the (map_of es n)) :: nat))"
proof (induction es)
  case Nil
  then show ?case by simp
next
  case (Cons e es)
  obtain k v where e: "e = (k, v)"
    by (cases e)
  from Cons.prems e have k: "k \<notin> fst ` set es" and d: "distinct (map fst es)"
    by simp_all
  have "(\<Sum>n \<in> fst ` set es. h (the (map_of (e # es) n))) =
        (\<Sum>n \<in> fst ` set es. h (the (map_of es n)))"
    by (rule sum.cong) (use k e in auto)
  with Cons.IH [OF d] k e show ?case
    by simp
qed

lemma same_tree_count: "same_tree t t' \<Longrightarrow> count_files t = count_files t'"
proof (induction t t' rule: same_tree.induct)
  case (5 es t')
  from same_tree_Dir_is_Dir [OF 5(2)] obtain es' where t': "t' = Dir es'"
    by blast
  with 5(2) have st: "same_tree (Dir es) (Dir es')"
    by simp
  let ?h = "\<lambda>x. (if is_file (Some x) then 1 else 0) + count_files x"
  have pointwise: "?h (the (map_of es n)) = ?h (the (map_of es' n))" if "n \<in> fst ` set es" for n
  proof -
    from that obtain e where e: "e \<in> set es" "fst e = n"
      by blast
    from same_tree_DirD(4) [OF st e(1)] e(2)
    obtain x' where x': "map_of es' n = Some x'" "same_tree (snd e) x'"
      by auto
    from same_tree_DirD(1) [OF st] e have x: "map_of es n = Some (snd e)"
      by (metis map_of_is_SomeI prod.collapse)
    have "is_file (Some (snd e)) = is_file (Some x')"
      by (rule same_path_is_file) (simp add: same_path_def x'(2))
    moreover from x'(1) e(2) have "map_of es' (fst e) = Some x'"
      by simp
    from 5(1) [OF t' e(1) this x'(2)] have "count_files (snd e) = count_files x'" .
    ultimately show ?thesis
      by (simp add: x x')
  qed
  have "count_files (Dir es) = sum_list (map (\<lambda>e. ?h (snd e)) es)"
    by (rule count_files_Dir)
  also have "\<dots> = (\<Sum>n \<in> fst ` set es. ?h (the (map_of es n)))"
    by (rule sum_list_by_name [OF same_tree_DirD(1) [OF st]])
  also have "\<dots> = (\<Sum>n \<in> fst ` set es. ?h (the (map_of es' n)))"
    by (rule sum.cong) (simp_all add: pointwise)
  also have "\<dots> = (\<Sum>n \<in> fst ` set es'. ?h (the (map_of es' n)))"
    by (simp only: same_tree_names [OF st])
  also have "\<dots> = sum_list (map (\<lambda>e. ?h (snd e)) es')"
    by (rule sum_list_by_name [OF same_tree_DirD(2) [OF st], symmetric])
  also have "\<dots> = count_files (Dir es')"
    by (rule count_files_Dir [symmetric])
  finally show ?case
    by (simp add: t')
next
  case (4 t t')
  from same_tree_Symlink_is_Symlink [OF 4(2)] show ?case
    by auto
qed simp_all


lemma same_path_count:
  assumes "same_path q q'"
  shows "length (filter is_file (glob_rec_all q)) = length (filter is_file (glob_rec_all q'))"
proof (cases "stat q")
  case None
  with same_path_kind [OF same_stat [OF assms]] have "stat q' = None"
    by simp
  with None show ?thesis
    by (simp add: glob_count)
next
  case (Some d)
  with same_stat [OF assms] obtain d' where "stat q' = Some d'" "same_tree d d'"
    by (auto simp: same_path_def split: option.splits)
  with Some show ?thesis
    by (simp add: glob_count same_tree_count)
qed

lemma same_path_check_dir:
  assumes "same_path rp rp'"
  shows "check_dir rp n d = check_dir rp' n d"
  using same_path_truediv [OF assms, of n]
  by (simp add: check_dir_def Let_def same_path_exists [of "truediv rp n" "truediv rp' n"]
      same_path_is_dir [of "truediv rp n" "truediv rp' n"]
      same_path_count [of "truediv rp n" "truediv rp' n"])

lemma same_tree_refl: "distinct_names t \<Longrightarrow> same_tree t t"
proof (induction t rule: distinct_names.induct)
  case (1 es)
  have "case map_of es (fst e) of None \<Rightarrow> False | Some x' \<Rightarrow> same_tree (snd e) x'"
    if "e \<in> set es" for e
  proof -
    from 1(2) that have "map_of es (fst e) = Some (snd e)"
      by (metis distinct_names.simps(1) map_of_is_SomeI prod.collapse)
    moreover from 1(2) that have "distinct_names (snd e)"
      by (simp add: list_all_iff)
    with 1(1) that have "same_tree (snd e) (snd e)"
      by blast
    ultimately show ?thesis
      by simp
  qed
  then have "list_all (\<lambda>e. case map_of es (fst e) of
      None \<Rightarrow> False | Some x' \<Rightarrow> same_tree (snd e) x') es"
    unfolding list_all_iff by (rule ballI)
  with 1(2) show ?case
    by simp
qed simp_all

lemma long_integer_text_Cons:
  "long_integer_text = CHR ''1'' # replicate 4300 CHR ''1''"
proof -
  have "(4301 :: nat) = Suc 4300"
    by simp
  then show ?thesis
    by (simp only: long_integer_text_def replicate_Suc)
qed

lemma open_array_text_Cons:
  "open_array_text = CHR ''['' # CHR ''1'' # replicate 4999 CHR ''1''"
proof -
  have "(5000 :: nat) = Suc 4999"
    by simp
  then show ?thesis
    by (simp only: open_array_text_def replicate_Suc)
qed

lemma json_loads_fragment_long_integer:
  "json_loads_fragment long_integer_text =
     Raised (OtherException
       (''Exceeds the limit (4300 digits) for integer string conversion: '' @
        ''value has 4301 digits; use sys.set_int_max_str_digits() to increase the limit''))"
proof -
  have "long_integer_text \<noteq> ''[1, 2]''" "long_integer_text \<noteq> ''{}''"
    by (simp_all add: long_integer_text_Cons)
  then show ?thesis
    by (simp add: json_loads_fragment_def)
qed

lemma json_loads_fragment_open_array:
  "json_loads_fragment open_array_text =
     Raised (OtherException
       (''Exceeds the limit (4300 digits) for integer string conversion: '' @
        ''value has 5000 digits; use sys.set_int_max_str_digits() to increase the limit''))"
proof -
  have len: "length open_array_text = 5001"
    by (simp add: open_array_text_def)
  have "open_array_text \<noteq> ''[1, 2]''"
  proof
    assume "open_array_text = ''[1, 2]''"
    then have "length open_array_text = length ''[1, 2]''"
      by (rule arg_cong)
    with len show False
      by simp
  qed
  moreover have "open_array_text \<noteq> ''{}''" "open_array_text \<noteq> long_integer_text"
    by (simp_all add: open_array_text_Cons long_integer_text_Cons)
  ultimately show ?thesis
    by (simp add: json_loads_fragment_def)
qed

lemma json_loads_fragment_other:
  assumes "s = [] \<or> hd s \<notin> {CHR ''['', CHR ''{'', CHR ''1''}"
  shows "json_loads_fragment s = JSONDecodeError"
proof -
  from assms have "s \<noteq> ''[1, 2]''" "s \<noteq> ''{}''" "s \<noteq> long_integer_text" "s \<noteq> open_array_text"
    by (auto simp: open_array_text_Cons long_integer_text_Cons)
  then show ?thesis
    by (simp add: json_loads_fragment_def)
qed

lemma sample_texts_nonempty: "long_integer_text \<noteq> []" "open_array_text \<noteq> []"
  by (simp_all add: open_array_text_Cons long_integer_text_Cons)

section \<open>Properties of the structure analyzer\<close>

text \<open>
  C1. For a role root that is an empty directory reached by a path whose last component
  is \<^verbatim>\<open>myrole\<close>, the report has role name \<^verbatim>\<open>myrole\<close>, the ten catalog entries in catalog
  order, each with \<open>exists = False\<close> and no file count, the single issue for the missing
  \<^verbatim>\<open>tasks/main.yml\<close>, the four recommendations (documentation, metadata, variables,
  testing, in this order), and the summary 0, 10, 1, 4.
\<close>

theorem empty_role_report:
  assumes "path_name p = ''myrole''"
  shows "analyze_role_structure p (Some (Dir [])) =
    \<lparr>role_name = ''myrole'',
     structure =
       [(''tasks'',
         \<lparr>exists = False, file_count = None,
          description = ''Task files (main.yml required)''\<rparr>),
        (''handlers'',
         \<lparr>exists = False, file_count = None, description = ''Handler files''\<rparr>),
        (''templates'',
         \<lparr>exists = False, file_count = None, description = ''Jinja2 templates''\<rparr>),
        (''files'',
         \<lparr>exists = False, file_count = None, description = ''Static files''\<rparr>),
        (''vars'',
         \<lparr>exists = False, file_count = None, description = ''Variable files''\<rparr>),
        (''defaults'',
         \<lparr>exists = False, file_count = None,
          description = ''Default variables (main.yml recommended)''\<rparr>),
        (''meta'',
         \<lparr>exists = False, file_count = None,
          description = ''Role metadata (main.yml for Galaxy)''\<rparr>),
        (''library'',
         \<lparr>exists = False, file_count = None, description = ''Custom modules''\<rparr>),
        (''module_utils'',
         \<lparr>exists = False, file_count = None, description = ''Module utilities''\<rparr>),
        (''lookup_plugins'',
         \<lparr>exists = False, file_count = None, description = ''Custom lookup plugins''\<rparr>)],
     issues =
       [\<lparr>severity = ''error'',
         issue.message = ''Missing tasks/main.yml - required entry point for role''\<rparr>],
     recommendations =
       [\<lparr>type = ''documentation'',
         message = ''Consider adding README.md to document the role''\<rparr>,
        \<lparr>type = ''metadata'',
         message = ''Consider adding meta/main.yml for Ansible Galaxy compatibility''\<rparr>,
        \<lparr>type = ''variables'',
         message = ''Consider adding defaults/main.yml to define role defaults''\<rparr>,
        \<lparr>type = ''testing'',
         message = ''Consider adding tests/ or molecule/ directory for role testing''\<rparr>],
     analysis.summary =
       \<lparr>directories_present = 0, total_expected = 10, issue_count = 1,
        recommendation_count = 4\<rparr>\<rparr>"
  using assms by (simp add: report_eval fs_eval)

theorem empty_role_report_witness:
  "path_name ''/tmp/myrole'' = ''myrole'' \<and>
   role_name (analyze_role_structure ''/tmp/myrole'' (Some (Dir []))) = ''myrole'' \<and>
   map (\<lambda>e. exists (snd e)) (structure (analyze_role_structure ''/tmp/myrole'' (Some (Dir [])))) =
     replicate 10 False \<and>
   length (issues (analyze_role_structure ''/tmp/myrole'' (Some (Dir [])))) = 1 \<and>
   map type (recommendations (analyze_role_structure ''/tmp/myrole'' (Some (Dir [])))) =
     [''documentation'', ''metadata'', ''variables'', ''testing''] \<and>
   analysis.summary (analyze_role_structure ''/tmp/myrole'' (Some (Dir []))) =
     \<lparr>directories_present = 0, total_expected = 10, issue_count = 1,
      recommendation_count = 4\<rparr>"
proof -
  have h: "path_name ''/tmp/myrole'' = ''myrole''"
    by (simp add: path_name_def path_parts_def)
  show ?thesis
    by (simp add: empty_role_report [OF h] h numeral_eq_Suc)
qed

text \<open>
  C2. For every role root, the summary of the report is an aggregate of its other
  fields: \<open>directories_present\<close> is the number of structure entries with
  \<open>exists = True\<close>, \<open>total_expected\<close> is the size of the catalog, which is 10 and is also
  the number of structure entries, \<open>issue_count\<close> is the length of \<open>issues\<close> and
  \<open>recommendation_count\<close> the length of \<open>recommendations\<close>.
\<close>

theorem summary_is_aggregate:
  "directories_present (analysis.summary (analyze_role_structure p root)) =
     length (filter exists (map snd (structure (analyze_role_structure p root)))) \<and>
   total_expected (analysis.summary (analyze_role_structure p root)) = length expected_dirs \<and>
   length expected_dirs = 10 \<and>
   length (structure (analyze_role_structure p root)) = 10 \<and>
   issue_count (analysis.summary (analyze_role_structure p root)) =
     length (issues (analyze_role_structure p root)) \<and>
   recommendation_count (analysis.summary (analyze_role_structure p root)) =
     length (recommendations (analyze_role_structure p root))"
proof -
  have "length (check_dirs root) = 10"
    by (simp add: check_dirs_eq length_expected_dirs)
  then show ?thesis
    by (simp add: analyze_role_structure_def Let_def length_expected_dirs)
qed

text \<open>
  C6. For every role root, \<open>issues\<close> holds exactly one issue, of severity \<^verbatim>\<open>error\<close> and
  with the fixed message about the missing entry point, when \<^verbatim>\<open>tasks/main.yml\<close> below
  the root does not exist (in the sense of \<^verbatim>\<open>Path.exists\<close>), and is empty when it
  exists; nothing else in the directory tree has any influence.
\<close>

theorem issues_iff_tasks_main_missing:
  "issues (analyze_role_structure p root) =
     (if path_exists (truediv (truediv root ''tasks'') ''main.yml'') then []
      else [\<lparr>severity = ''error'',
             issue.message = ''Missing tasks/main.yml - required entry point for role''\<rparr>])"
  by (simp add: analyze_role_structure_def Let_def missing_tasks_main_def)

theorem issues_iff_tasks_main_missing_witness:
  "issues (analyze_role_structure ''myrole''
     (Some (Dir [(''tasks'', Dir [(''main.yml'', File)]), (''junk'', Special)]))) = [] \<and>
   issues (analyze_role_structure ''myrole''
     (Some (Dir [(''tasks'', Dir [(''install.yml'', File)]), (''README.md'', File)]))) =
     [\<lparr>severity = ''error'',
       issue.message = ''Missing tasks/main.yml - required entry point for role''\<rparr>]"
  using
    issues_iff_tasks_main_missing [of "''myrole''"
      "Some (Dir [(''tasks'', Dir [(''main.yml'', File)]), (''junk'', Special)])"]
    issues_iff_tasks_main_missing [of "''myrole''"
      "Some (Dir [(''tasks'', Dir [(''install.yml'', File)]), (''README.md'', File)])"]
  by (simp add: fs_eval)

text \<open>
  C7, as the specification states it, fails: \<^verbatim>\<open>Path.is_file\<close> follows symbolic links,
  so a link to a regular file is counted. With \<^verbatim>\<open>tasks\<close> holding one regular file and
  one link to a regular file, the recorded \<open>file_count\<close> is 2 while one regular file
  lies below the directory.
\<close>

theorem file_count_counts_links_counterexample:
  "map_of (structure (analyze_role_structure ''myrole''
      (Some (Dir [(''tasks'',
         Dir [(''main.yml'', File), (''alias.yml'', Symlink (Some File))])]))))
     ''tasks'' =
     Some \<lparr>exists = True, file_count = Some 2,
           description = ''Task files (main.yml required)''\<rparr> \<and>
   regular_files_under (Dir [(''main.yml'', File), (''alias.yml'', Symlink (Some File))]) = 1 \<and>
   map_of (structure (analyze_role_structure ''myrole''
      (Some (Dir [(''tasks'',
         Dir [(''main.yml'', File), (''alias.yml'', Symlink (Some File))])]))))
     ''tasks'' \<noteq>
     Some \<lparr>exists = True,
           file_count = Some (regular_files_under
             (Dir [(''main.yml'', File), (''alias.yml'', Symlink (Some File))])),
           description = ''Task files (main.yml required)''\<rparr>"
  by (simp add: report_eval fs_eval)

text \<open>
  C7, amended. For every catalog entry whose path below the role root leads to a
  directory, the entry is recorded with \<open>exists = True\<close> and its description, and the
  recorded \<open>file_count\<close> is the number of regular files found recursively below that
  directory plus the number of symbolic links found there that lead to a regular
  file. Directories, special files, dangling links and links to anything else are not
  counted, and directories that are symbolic links are not entered.
\<close>

theorem file_count_regular_and_links:
  assumes "(name, descr) \<in> set expected_dirs"
    and "stat (truediv root name) = Some (Dir es)"
  shows "map_of (structure (analyze_role_structure p root)) name =
     Some \<lparr>exists = True,
           file_count = Some (regular_files_under (Dir es) + file_links_under (Dir es)),
           description = descr\<rparr>"
proof -
  have "structure (analyze_role_structure p root) = check_dirs root"
    by (simp add: analyze_role_structure_def Let_def)
  moreover have "map_of (check_dirs root) name = Some (check_dir root name descr)"
    unfolding check_dirs_eq using distinct_expected_dirs assms(1) by (rule map_of_catalog)
  moreover have "check_dir root name descr =
     \<lparr>exists = True, file_count = Some (count_files (Dir es)), description = descr\<rparr>"
    using assms(2) by (simp add: check_dir_def Let_def path_exists_def is_dir_def glob_count)
  ultimately show ?thesis
    by (simp add: count_files_split)
qed

theorem file_count_regular_and_links_witness:
  "map_of (structure (analyze_role_structure ''myrole''
      (Some (Dir [(''handlers'',
         Dir [(''main.yml'', File),
              (''alias.yml'', Symlink (Some File)),
              (''gone.yml'', Symlink None),
              (''shared'', Symlink (Some (Dir [(''hidden.yml'', File)]))),
              (''sock'', Special),
              (''sub'', Dir [(''a.yml'', File), (''b.yml'', File)])])]))))
     ''handlers'' =
     Some \<lparr>exists = True, file_count = Some 4, description = ''Handler files''\<rparr>"
proof -
  let ?es = "[(''main.yml'', File),
              (''alias.yml'', Symlink (Some File)),
              (''gone.yml'', Symlink None),
              (''shared'', Symlink (Some (Dir [(''hidden.yml'', File)]))),
              (''sock'', Special),
              (''sub'', Dir [(''a.yml'', File), (''b.yml'', File)])]"
  have a: "(''handlers'', ''Handler files'') \<in> set expected_dirs"
    by (simp add: expected_dirs_def)
  have b: "stat (truediv (Some (Dir [(''handlers'', Dir ?es)])) ''handlers'') = Some (Dir ?es)"
    by (simp add: fs_eval)
  show ?thesis
    using file_count_regular_and_links [OF a b, of "''myrole''"] by simp
qed

text \<open>
  C8. For every role root, a recommendation of type \<^verbatim>\<open>documentation\<close> is in the report
  exactly when the listing of the root has no entry whose name starts with \<^verbatim>\<open>README\<close>.
  The entry may be of any kind: the glob matches names only.
\<close>

theorem documentation_iff_no_readme:
  "(\<exists>r \<in> set (recommendations (analyze_role_structure p root)). type r = ''documentation'') \<longleftrightarrow>
   \<not> (\<exists>n x s. (n, x) \<in> set (scandir root) \<and> n = ''README'' @ s)"
  by (auto simp add: analyze_role_structure_def Let_def glob_readme_def fnmatch_readme_def
      filter_empty_conv prefix_def rec_documentation_def rec_metadata_def rec_variables_def
      rec_testing_def)

theorem documentation_iff_no_readme_witness:
  "(\<exists>r \<in> set (recommendations (analyze_role_structure ''myrole''
       (Some (Dir [(''tasks'', Dir [(''README.md'', File)])])))). type r = ''documentation'') \<and>
   \<not> (\<exists>r \<in> set (recommendations (analyze_role_structure ''myrole''
       (Some (Dir [(''tasks'', Dir []), (''README.md'', File)])))). type r = ''documentation'')"
proof -
  let ?without = "Some (Dir [(''tasks'', Dir [(''README.md'', File)])])"
  let ?with = "Some (Dir [(''tasks'', Dir []), (''README.md'', File)])"
  have a: "\<not> (\<exists>n x s. (n, x) \<in> set (scandir ?without) \<and> n = ''README'' @ s)"
    by (simp add: scandir_def stat_def)
  have "(''README.md'', File) \<in> set (scandir ?with) \<and> ''README.md'' = ''README'' @ ''.md''"
    by (simp add: scandir_def stat_def)
  then have b: "\<exists>n x s. (n, x) \<in> set (scandir ?with) \<and> n = ''README'' @ s"
    by blast
  show ?thesis
    using a b documentation_iff_no_readme [of "''myrole''" ?without]
      documentation_iff_no_readme [of "''myrole''" ?with]
    by simp
qed

text \<open>
  C9. The report is determined by the path string and the directory tree alone: two
  invocations with the same path that see the same tree return equal reports, equal
  also in the order of the structure entries, the issues and the recommendations. This
  holds even when the directories are enumerated in a different order in the two
  runs; a tree is the same as itself (\<open>same_tree_refl\<close>).
\<close>

theorem report_independent_of_listing_order:
  assumes "same_path root root'"
  shows "analyze_role_structure p root = analyze_role_structure p root'"
proof -
  have e: "path_exists (truediv (truediv root a) b) = path_exists (truediv (truediv root' a) b)"
    for a b
    by (intro same_path_exists same_path_truediv assms)
  have f: "path_exists (truediv root a) = path_exists (truediv root' a)" for a
    by (intro same_path_exists same_path_truediv assms)
  have g: "glob_readme root = [] \<longleftrightarrow> glob_readme root' = []"
    by (rule same_path_glob_readme [OF assms])
  have h: "check_dirs root = check_dirs root'"
    by (simp add: check_dirs_eq same_path_check_dir [OF assms])
  show ?thesis
    by (simp add: analyze_role_structure_def Let_def e f g h)
qed

theorem report_independent_of_listing_order_witness:
  "same_path
     (Some (Dir [(''tasks'', Dir [(''main.yml'', File), (''setup.yml'', File)]),
                 (''README.md'', File),
                 (''meta'', Symlink (Some (Dir [(''main.yml'', File)])))]))
     (Some (Dir [(''meta'', Symlink (Some (Dir [(''main.yml'', File)]))),
                 (''tasks'', Dir [(''setup.yml'', File), (''main.yml'', File)]),
                 (''README.md'', File)])) \<and>
   analyze_role_structure ''myrole''
     (Some (Dir [(''tasks'', Dir [(''main.yml'', File), (''setup.yml'', File)]),
                 (''README.md'', File),
                 (''meta'', Symlink (Some (Dir [(''main.yml'', File)])))])) =
   analyze_role_structure ''myrole''
     (Some (Dir [(''meta'', Symlink (Some (Dir [(''main.yml'', File)]))),
                 (''tasks'', Dir [(''setup.yml'', File), (''main.yml'', File)]),
                 (''README.md'', File)]))"
proof -
  have a: "same_path
     (Some (Dir [(''tasks'', Dir [(''main.yml'', File), (''setup.yml'', File)]),
                 (''README.md'', File),
                 (''meta'', Symlink (Some (Dir [(''main.yml'', File)])))]))
     (Some (Dir [(''meta'', Symlink (Some (Dir [(''main.yml'', File)]))),
                 (''tasks'', Dir [(''setup.yml'', File), (''main.yml'', File)]),
                 (''README.md'', File)]))"
    by (simp add: same_path_def)
  show ?thesis
    using a report_independent_of_listing_order [OF a, of "''myrole''"] by simp
qed

section \<open>Properties of the lint invoker\<close>

text \<open>
  C3, as the specification states it, fails: the handler \<^verbatim>\<open>except Exception\<close> also
  encloses the call of \<^verbatim>\<open>json.loads\<close>. A tool that exits with status 2 and prints an
  integer literal of 4301 digits has printed a JSON document, yet decoding it raises
  \<^verbatim>\<open>ValueError\<close> and the report is \<open>success = False\<close> with that error text and no
  findings.
\<close>

theorem completed_run_decoder_error_counterexample:
  "run_ansible_lint
      (\<lambda>argv t. Inr \<lparr>returncode = 2, stdout = long_integer_text, stderr = []\<rparr>)
      json_loads_fragment ''roles/web'' =
     \<lparr>success = False, findings = None, summary = None, stderr = None,
      error = Some
        (''Exceeds the limit (4300 digits) for integer string conversion: '' @
         ''value has 4301 digits; use sys.set_int_max_str_digits() to increase the limit'')\<rparr> \<and>
   \<not> success (run_ansible_lint
      (\<lambda>argv t. Inr \<lparr>returncode = 2, stdout = long_integer_text, stderr = []\<rparr>)
      json_loads_fragment ''roles/web'')"
  by (simp add: run_ansible_lint_def handle_exception_def sample_texts_nonempty
      json_loads_fragment_long_integer)

text \<open>
  C3, amended. Whenever the external tool is launched and completes within the
  timeout, and decoding its output raises nothing but \<^verbatim>\<open>JSONDecodeError\<close> (the output is
  empty and not decoded at all, or \<^verbatim>\<open>json.loads\<close> returns or raises \<^verbatim>\<open>JSONDecodeError\<close>),
  the report has \<open>success = True\<close>, whatever the exit code; in particular, when the
  output is not empty and \<^verbatim>\<open>json.loads\<close> decodes it, \<open>findings\<close> is the decoded value.
  When \<^verbatim>\<open>json.loads\<close> raises any other exception, the report is the one the handlers
  build for that exception, with \<open>success = False\<close>.
\<close>

theorem completed_run_succeeds:
  assumes "subprocess_run [''ansible-lint'', ''--format'', ''json'', path] 60 = Inr result"
  shows
    "(stdout result = [] \<or> (\<forall>e. json_loads (stdout result) \<noteq> Raised e) \<longrightarrow>
        success (run_ansible_lint subprocess_run json_loads path)) \<and>
     (\<forall>v. stdout result \<noteq> [] \<and> json_loads (stdout result) = Decoded v \<longrightarrow>
        success (run_ansible_lint subprocess_run json_loads path) \<and>
        findings (run_ansible_lint subprocess_run json_loads path) = Some v) \<and>
     (\<forall>e. stdout result \<noteq> [] \<and> json_loads (stdout result) = Raised e \<longrightarrow>
        run_ansible_lint subprocess_run json_loads path = handle_exception e \<and>
        \<not> success (run_ansible_lint subprocess_run json_loads path))"
proof -
  have ok: "success (completed_output result v)" "findings (completed_output result v) = Some v"
    for v
    by (simp_all add: completed_output_def Let_def)
  have ko: "\<not> success (handle_exception e)" for e
    by (cases e) (simp_all add: handle_exception_def)
  show ?thesis
    using assms ok ko
    by (cases "json_loads (stdout result)") (simp_all add: run_ansible_lint_def)
qed

theorem completed_run_succeeds_witness:
  "success (run_ansible_lint
      (\<lambda>argv t. Inr \<lparr>returncode = 2, stdout = ''[1, 2]'', stderr = ''WARNING''\<rparr>)
      json_loads_fragment ''roles/web'') \<and>
   findings (run_ansible_lint
      (\<lambda>argv t. Inr \<lparr>returncode = 2, stdout = ''[1, 2]'', stderr = ''WARNING''\<rparr>)
      json_loads_fragment ''roles/web'') = Some (PyList [PyInt 1, PyInt 2])"
  using completed_run_succeeds
    [of "\<lambda>argv t. Inr \<lparr>returncode = 2, stdout = ''[1, 2]'', stderr = ''WARNING''\<rparr>"
      "''roles/web''" "\<lparr>returncode = 2, stdout = ''[1, 2]'', stderr = ''WARNING''\<rparr>"
      json_loads_fragment]
  by (simp add: json_loads_fragment_def)

text \<open>
  C4, as the specification states it, fails in two ways. For a tool that prints
  nothing, the empty text is no JSON document, yet the guard \<^verbatim>\<open>if result.stdout\<close> leaves
  \<open>findings\<close> at the empty list instead of storing the captured (empty) text. For a tool
  that prints an opening bracket followed by 5000 digits, the text is no JSON document
  either, yet \<^verbatim>\<open>json.loads\<close> raises \<^verbatim>\<open>ValueError\<close> before it finds that out, and the
  report is \<open>success = False\<close> with no findings.
\<close>

theorem raw_fallback_counterexample:
  "json_loads_fragment [] = JSONDecodeError \<and>
   findings (run_ansible_lint
      (\<lambda>argv t. Inr \<lparr>returncode = 0, stdout = [], stderr = []\<rparr>)
      json_loads_fragment ''roles/web'') = Some (PyList []) \<and>
   findings (run_ansible_lint
      (\<lambda>argv t. Inr \<lparr>returncode = 0, stdout = [], stderr = []\<rparr>)
      json_loads_fragment ''roles/web'') \<noteq> Some (PyStr []) \<and>
   \<not> success (run_ansible_lint
      (\<lambda>argv t. Inr \<lparr>returncode = 1, stdout = open_array_text, stderr = []\<rparr>)
      json_loads_fragment ''roles/web'') \<and>
   findings (run_ansible_lint
      (\<lambda>argv t. Inr \<lparr>returncode = 1, stdout = open_array_text, stderr = []\<rparr>)
      json_loads_fragment ''roles/web'') = None"
  by (simp add: run_ansible_lint_def handle_exception_def completed_output_def Let_def
      sample_texts_nonempty json_loads_fragment_open_array json_loads_fragment_other)

text \<open>
  C4, amended. Whenever the tool completes, its standard output is not empty and
  \<^verbatim>\<open>json.loads\<close> rejects it with \<^verbatim>\<open>JSONDecodeError\<close>, the report has \<open>success = True\<close>,
  \<open>findings\<close> is the captured text itself, the summary is the generic completion
  message and there is no error. The function returns a report in every case, so no
  exception reaches the caller.
\<close>

theorem raw_fallback_nonempty:
  assumes "subprocess_run [''ansible-lint'', ''--format'', ''json'', path] 60 = Inr result"
    and "stdout result \<noteq> []"
    and "json_loads (stdout result) = JSONDecodeError"
  shows "success (run_ansible_lint subprocess_run json_loads path) \<and>
     findings (run_ansible_lint subprocess_run json_loads path) = Some (PyStr (stdout result)) \<and>
     lint_report.summary (run_ansible_lint subprocess_run json_loads path) =
       Some ''ansible-lint completed'' \<and>
     error (run_ansible_lint subprocess_run json_loads path) = None"
  using assms by (simp add: run_ansible_lint_def completed_output_def Let_def)

theorem raw_fallback_nonempty_witness:
  "run_ansible_lint
      (\<lambda>argv t. Inr \<lparr>returncode = 1, stdout = ''Traceback: boom'', stderr = []\<rparr>)
      json_loads_fragment ''roles/web'' =
   \<lparr>success = True, findings = Some (PyStr ''Traceback: boom''),
    summary = Some ''ansible-lint completed'', stderr = None, error = None\<rparr>"
proof -
  let ?run = "\<lambda>(argv :: string list) (t :: nat).
    (Inr \<lparr>returncode = 1, stdout = ''Traceback: boom'', stderr = []\<rparr> :: exn + completed_process)"
  let ?result = "\<lparr>returncode = 1, stdout = ''Traceback: boom'', stderr = []\<rparr>"
  have a: "?run [''ansible-lint'', ''--format'', ''json'', ''roles/web''] 60 = Inr ?result"
    by simp
  have b: "stdout ?result \<noteq> []"
    by simp
  have c: "json_loads_fragment (stdout ?result) = JSONDecodeError"
    by (simp add: json_loads_fragment_other)
  have d: "lint_report.stderr (run_ansible_lint ?run json_loads_fragment ''roles/web'') = None"
    by (simp add: run_ansible_lint_def completed_output_def Let_def c [simplified])
  show ?thesis
    using raw_fallback_nonempty [of ?run "''roles/web''" ?result json_loads_fragment, OF a b c] d
    by (cases "run_ansible_lint ?run json_loads_fragment ''roles/web''") simp
qed

text \<open>
  C5. Whenever the invocation fails, the report is exactly \<open>success = False\<close> together
  with an error text: a fixed one when the binary is missing, a fixed one when the
  timeout expires, and the text of the exception otherwise. It has no \<open>findings\<close>, no
  \<open>summary\<close> and no \<open>stderr\<close>.
\<close>

theorem invocation_failure_report:
  assumes "subprocess_run [''ansible-lint'', ''--format'', ''json'', path] 60 = Inl e"
  shows "run_ansible_lint subprocess_run json_loads path =
     \<lparr>success = False, findings = None, summary = None, stderr = None,
      error = Some (case e of
          FileNotFoundError _ \<Rightarrow> ''ansible-lint not found. Install with: pip install ansible-lint''
        | TimeoutExpired _ \<Rightarrow> ''ansible-lint timed out after 60 seconds''
        | OtherException msg \<Rightarrow> msg)\<rparr>"
  using assms by (cases e) (simp_all add: run_ansible_lint_def handle_exception_def)

theorem invocation_failure_report_witness:
  "run_ansible_lint (\<lambda>argv t. Inl (FileNotFoundError ''[Errno 2] No such file or directory''))
      json_loads_fragment ''roles/web'' =
     \<lparr>success = False, findings = None, summary = None, stderr = None,
      error = Some ''ansible-lint not found. Install with: pip install ansible-lint''\<rparr> \<and>
   run_ansible_lint (\<lambda>argv t. Inl (TimeoutExpired ''timed out''))
      json_loads_fragment ''roles/web'' =
     \<lparr>success = False, findings = None, summary = None, stderr = None,
      error = Some ''ansible-lint timed out after 60 seconds''\<rparr> \<and>
   run_ansible_lint (\<lambda>argv t. Inl (OtherException ''[Errno 13] Permission denied''))
      json_loads_fragment ''roles/web'' =
     \<lparr>success = False, findings = None, summary = None, stderr = None,
      error = Some ''[Errno 13] Permission denied''\<rparr>"
  using
    invocation_failure_report
      [of "\<lambda>argv t. Inl (FileNotFoundError ''[Errno 2] No such file or directory'')"
        "''roles/web''" "FileNotFoundError ''[Errno 2] No such file or directory''"
        json_loads_fragment]
    invocation_failure_report
      [of "\<lambda>argv t. Inl (TimeoutExpired ''timed out'')"
        "''roles/web''" "TimeoutExpired ''timed out''" json_loads_fragment]
    invocation_failure_report
      [of "\<lambda>argv t. Inl (OtherException ''[Errno 13] Permission denied'')"
        "''roles/web''" "OtherException ''[Errno 13] Permission denied''" json_loads_fragment]
  by simp

text \<open>
  C10. Whenever the tool completes with empty standard output, the report has
  \<open>success = True\<close>, \<open>findings\<close> is the empty list and the summary is
  \<^verbatim>\<open>Found 0 ansible-lint findings\<close>. This holds for every decoder \<open>json_loads\<close>: the
  decoder is not consulted.
\<close>

theorem empty_stdout_report:
  assumes "subprocess_run [''ansible-lint'', ''--format'', ''json'', path] 60 = Inr result"
    and "stdout result = []"
  shows "success (run_ansible_lint subprocess_run json_loads path) \<and>
     findings (run_ansible_lint subprocess_run json_loads path) = Some (PyList []) \<and>
     lint_report.summary (run_ansible_lint subprocess_run json_loads path) =
       Some ''Found 0 ansible-lint findings''"
  using assms by (simp add: run_ansible_lint_def completed_output_def Let_def digit_char_def)

theorem empty_stdout_report_witness:
  "success (run_ansible_lint
      (\<lambda>argv t. Inr \<lparr>returncode = 0, stdout = [], stderr = ''deprecation notice''\<rparr>)
      (\<lambda>s. Decoded (PyStr ''decoded'')) ''.'') \<and>
   findings (run_ansible_lint
      (\<lambda>argv t. Inr \<lparr>returncode = 0, stdout = [], stderr = ''deprecation notice''\<rparr>)
      (\<lambda>s. Decoded (PyStr ''decoded'')) ''.'') = Some (PyList []) \<and>
   lint_report.summary (run_ansible_lint
      (\<lambda>argv t. Inr \<lparr>returncode = 0, stdout = [], stderr = ''deprecation notice''\<rparr>)
      (\<lambda>s. Decoded (PyStr ''decoded'')) ''.'') = Some ''Found 0 ansible-lint findings''"
  using empty_stdout_report
    [of "\<lambda>argv t. Inr \<lparr>returncode = 0, stdout = [], stderr = ''deprecation notice''\<rparr>"
      "''.''" "\<lparr>returncode = 0, stdout = [], stderr = ''deprecation notice''\<rparr>"
      "\<lambda>s. Decoded (PyStr ''decoded'')"]
  by simp

end
